theory Spec2Isabelle
  imports Complex_Main
begin

section \<open>The component \<open>logic-directional-movement\<close>\<close>

text \<open>
  A shallow embedding of \<^verbatim>\<open>src/js/standard-components/logic-directional-movement.js\<close>.
  The component keeps eight boolean intent flags, written by the directional message
  handlers and by \<^verbatim>\<open>stop\<close>, and on every \<^verbatim>\<open>handle-logic\<close> message turns them into a
  velocity, adds the velocity times \<^verbatim>\<open>deltaT\<close> to the position of its owner and triggers
  \<^verbatim>\<open>logical-state\<close> on the owner when the derived state has changed.
\<close>

subsection \<open>JavaScript values\<close>

text \<open>
  A JavaScript number is a double: a finite value, one of the two infinities, or NaN. A
  finite value is given by the real it stands for; the sign of zero is not kept, and a
  literal is taken at its decimal value.
\<close>

datatype number = Finite real | PosInfinity | NegInfinity | NaN

text \<open>
  What the language runtime computes and the component does not: the number a string
  denotes, and the double a real sum or product is rounded to (an infinity when the real is
  out of range). Both are parameters of the model.
\<close>

record runtime =
  string_to_number :: "string \<Rightarrow> number"
  round_double :: "real \<Rightarrow> number"

fun num_neg :: "number \<Rightarrow> number" where
  "num_neg (Finite a) = Finite (- a)"
| "num_neg PosInfinity = NegInfinity"
| "num_neg NegInfinity = PosInfinity"
| "num_neg NaN = NaN"

text \<open>
  Addition. Adding zero changes nothing; any other finite sum is the real sum, rounded by
  the runtime.
\<close>

fun num_add :: "runtime \<Rightarrow> number \<Rightarrow> number \<Rightarrow> number" where
  "num_add rt NaN _ = NaN"
| "num_add rt _ NaN = NaN"
| "num_add rt (Finite a) (Finite b) =
     (if b = 0 then Finite a else if a = 0 then Finite b else round_double rt (a + b))"
| "num_add rt (Finite a) PosInfinity = PosInfinity"
| "num_add rt (Finite a) NegInfinity = NegInfinity"
| "num_add rt PosInfinity (Finite b) = PosInfinity"
| "num_add rt NegInfinity (Finite b) = NegInfinity"
| "num_add rt PosInfinity PosInfinity = PosInfinity"
| "num_add rt NegInfinity NegInfinity = NegInfinity"
| "num_add rt PosInfinity NegInfinity = NaN"
| "num_add rt NegInfinity PosInfinity = NaN"

text \<open>The sign of an infinite product: the infinity of the given sign, NaN for zero.\<close>

definition signed_infinity :: "real \<Rightarrow> number" where
  "signed_infinity a =
     (if a = 0 then NaN else if 0 < a then PosInfinity else NegInfinity)"

text \<open>
  Multiplication. A finite product with a zero factor is zero; any other finite product is
  the real product, rounded by the runtime.
\<close>

fun num_mul :: "runtime \<Rightarrow> number \<Rightarrow> number \<Rightarrow> number" where
  "num_mul rt NaN _ = NaN"
| "num_mul rt _ NaN = NaN"
| "num_mul rt (Finite a) (Finite b) =
     (if a = 0 \<or> b = 0 then Finite 0 else round_double rt (a * b))"
| "num_mul rt (Finite a) PosInfinity = signed_infinity a"
| "num_mul rt (Finite a) NegInfinity = signed_infinity (- a)"
| "num_mul rt PosInfinity (Finite b) = signed_infinity b"
| "num_mul rt NegInfinity (Finite b) = signed_infinity (- b)"
| "num_mul rt PosInfinity PosInfinity = PosInfinity"
| "num_mul rt NegInfinity NegInfinity = PosInfinity"
| "num_mul rt PosInfinity NegInfinity = NegInfinity"
| "num_mul rt NegInfinity PosInfinity = NegInfinity"

text \<open>
  Division. A zero divisor is taken as positive zero; the only divisor of the component is
  the literal \<^verbatim>\<open>1.414\<close>, and the quotient by it is taken unrounded.
\<close>

fun num_div :: "number \<Rightarrow> number \<Rightarrow> number" where
  "num_div NaN _ = NaN"
| "num_div _ NaN = NaN"
| "num_div (Finite a) (Finite b) = (if b = 0 then signed_infinity a else Finite (a / b))"
| "num_div (Finite a) PosInfinity = Finite 0"
| "num_div (Finite a) NegInfinity = Finite 0"
| "num_div PosInfinity (Finite b) = (if 0 \<le> b then PosInfinity else NegInfinity)"
| "num_div NegInfinity (Finite b) = (if 0 \<le> b then NegInfinity else PosInfinity)"
| "num_div PosInfinity PosInfinity = NaN"
| "num_div NegInfinity NegInfinity = NaN"
| "num_div PosInfinity NegInfinity = NaN"
| "num_div NegInfinity PosInfinity = NaN"

text \<open>
  The values a message payload, a definition or a field can hold. An object is a plain data
  object with the prototype of all objects, given by its own fields (of two entries with
  one name the first counts); arrays and functions are not modelled.
\<close>

datatype jsval =
    Undefined
  | Null
  | Boolean bool
  | Number number
  | String string
  | Object "(string \<times> jsval) list"

text \<open>What \<^verbatim>\<open>if (v)\<close>, \<^verbatim>\<open>!v\<close> and \<^verbatim>\<open>v || w\<close> test.\<close>

fun truthy :: "jsval \<Rightarrow> bool" where
  "truthy Undefined = False"
| "truthy Null = False"
| "truthy (Boolean b) = b"
| "truthy (Number n) = (n \<noteq> NaN \<and> n \<noteq> Finite 0)"
| "truthy (String s) = (s \<noteq> [])"
| "truthy (Object fs) = True"

text \<open>\<^verbatim>\<open>a || b\<close>: the left operand when it is truthy, the right one otherwise.\<close>

definition js_or :: "jsval \<Rightarrow> jsval \<Rightarrow> jsval" where
  "js_or a b = (if truthy a then a else b)"

datatype error = TypeError

text \<open>
  \<^verbatim>\<open>v.name\<close>: reading a property of \<^verbatim>\<open>undefined\<close> or \<^verbatim>\<open>null\<close> throws, a missing
  property is \<^verbatim>\<open>undefined\<close>. The component reads \<^verbatim>\<open>pressed\<close>, \<^verbatim>\<open>deltaT\<close> and
  \<^verbatim>\<open>speed\<close> only, none of which a boolean, a number or a string has.
\<close>

fun get_prop :: "jsval \<Rightarrow> string \<Rightarrow> error + jsval" where
  "get_prop Undefined name = Inl TypeError"
| "get_prop Null name = Inl TypeError"
| "get_prop (Object fs) name =
     (case map_of fs name of None \<Rightarrow> Inr Undefined | Some v \<Rightarrow> Inr v)"
| "get_prop _ name = Inr Undefined"

text \<open>
  The conversion to a number that unary minus, \<^verbatim>\<open>/\<close> and \<^verbatim>\<open>*\<close> apply to their operands.
  The number a string denotes is the runtime's. An object is asked for its \<^verbatim>\<open>valueOf\<close> and
  its \<^verbatim>\<open>toString\<close>: an own field of either name is no function and is passed over, the
  inherited \<^verbatim>\<open>valueOf\<close> returns the object itself, and the inherited \<^verbatim>\<open>toString\<close> returns
  a string that denotes no number. So an object with an own \<^verbatim>\<open>toString\<close> field cannot be
  converted, which throws, and any other object converts to NaN.
\<close>

fun to_number :: "runtime \<Rightarrow> jsval \<Rightarrow> error + number" where
  "to_number rt Undefined = Inr NaN"
| "to_number rt Null = Inr (Finite 0)"
| "to_number rt (Boolean b) = Inr (Finite (if b then 1 else 0))"
| "to_number rt (Number n) = Inr n"
| "to_number rt (String s) = Inr (string_to_number rt s)"
| "to_number rt (Object fs) =
     (case map_of fs ''toString'' of None \<Rightarrow> Inr NaN | Some v \<Rightarrow> Inl TypeError)"

subsection \<open>The owner and the component\<close>

text \<open>
  \<^verbatim>\<open>this.state\<close>: the object handed to the listeners of \<^verbatim>\<open>logical-state\<close>. Its fields
  are \<^verbatim>\<open>moving\<close>, \<^verbatim>\<open>left\<close>, \<^verbatim>\<open>right\<close>, \<^verbatim>\<open>up\<close> and \<^verbatim>\<open>down\<close>; they carry the prefix
  \<open>state_\<close> here, the component having fields of the same names.
\<close>

record logical_state =
  state_moving :: bool
  state_left :: bool
  state_right :: bool
  state_up :: bool
  state_down :: bool

text \<open>
  The owning entity: its position \<^verbatim>\<open>owner.x\<close>, \<^verbatim>\<open>owner.y\<close>, which holds numbers, and the
  calls of \<^verbatim>\<open>owner.trigger\<close> made so far, oldest first, each with the message name and the
  content of the payload at the time of the call.
\<close>

record entity =
  owner_x :: number
  owner_y :: number
  triggered :: "(string \<times> logical_state) list"

record component =
  owner :: entity
  speed :: jsval
  state :: logical_state
  moving :: bool
  left :: bool
  right :: bool
  up :: bool
  down :: bool
  upLeft :: bool
  upRight :: bool
  downLeft :: bool
  downRight :: bool

text \<open>
  The fields of the component: the owner, the speed, the state last broadcast,
  \<^verbatim>\<open>moving\<close> and the eight intent flags. The array \<^verbatim>\<open>this.listeners\<close> only records what
  was bound on the owner; it is the list \<open>listeners\<close> below.

  A handler either returns, leaving the component in a new state, or throws, leaving the
  component as it was at the throw.
\<close>

type_synonym outcome = "(error \<times> component) + component"

text \<open>The component a handler leaves behind.\<close>

fun after :: "outcome \<Rightarrow> component" where
  "after (Inl (e, this)) = this"
| "after (Inr this) = this"

subsection \<open>Construction\<close>

text \<open>
  \<^verbatim>\<open>component = function(owner, definition)\<close>. Reading \<^verbatim>\<open>definition.speed\<close> throws when
  there is no definition. The listeners bound on the owner are the names of \<open>listeners\<close>
  below.
\<close>

definition component :: "entity \<Rightarrow> jsval \<Rightarrow> error + component" where
  "component own definition =
     (case get_prop definition ''speed'' of
        Inl e \<Rightarrow> Inl e
      | Inr s \<Rightarrow> Inr
          \<lparr> owner = own,
            speed = js_or s (Number (Finite (3 / 10))),
            state = \<lparr> state_moving = False, state_left = False, state_right = False,
                      state_up = False, state_down = False \<rparr>,
            moving = False,
            left = False,
            right = False,
            up = False,
            down = False,
            upLeft = False,
            upRight = False,
            downLeft = False,
            downRight = False \<rparr>)"

definition listeners :: "string list" where
  "listeners =
     [''handle-logic'',
      ''go-down'', ''go-south'',
      ''go-down-left'', ''go-southwest'',
      ''go-left'', ''go-west'',
      ''go-up-left'', ''go-northwest'',
      ''go-up'', ''go-north'',
      ''go-up-right'', ''go-northeast'',
      ''go-right'', ''go-east'',
      ''go-down-right'', ''go-southeast'',
      ''stop'']"

subsection \<open>The directional handlers and \<open>stop\<close>\<close>

text \<open>The eight flags \<^verbatim>\<open>processDirection\<close> is instantiated with.\<close>

datatype direction =
  Down | DownLeft | Left | UpLeft | Up | UpRight | Right | DownRight

text \<open>\<^verbatim>\<open>this[direction]\<close> and \<^verbatim>\<open>this[direction] = b\<close>.\<close>

fun flag :: "direction \<Rightarrow> component \<Rightarrow> bool" where
  "flag Down this = down this"
| "flag DownLeft this = downLeft this"
| "flag Left this = left this"
| "flag UpLeft this = upLeft this"
| "flag Up this = up this"
| "flag UpRight this = upRight this"
| "flag Right this = right this"
| "flag DownRight this = downRight this"

fun set_flag :: "direction \<Rightarrow> bool \<Rightarrow> component \<Rightarrow> component" where
  "set_flag Down b this = this\<lparr>down := b\<rparr>"
| "set_flag DownLeft b this = this\<lparr>downLeft := b\<rparr>"
| "set_flag Left b this = this\<lparr>left := b\<rparr>"
| "set_flag UpLeft b this = this\<lparr>upLeft := b\<rparr>"
| "set_flag Up b this = this\<lparr>up := b\<rparr>"
| "set_flag UpRight b this = this\<lparr>upRight := b\<rparr>"
| "set_flag Right b this = this\<lparr>right := b\<rparr>"
| "set_flag DownRight b this = this\<lparr>downRight := b\<rparr>"

definition processDirection :: "direction \<Rightarrow> jsval \<Rightarrow> component \<Rightarrow> outcome" where
  "processDirection direction st this =
     (if truthy st then
        (case get_prop st ''pressed'' of
           Inl e \<Rightarrow> Inl (e, this)
         | Inr pressed \<Rightarrow>
             if truthy pressed then Inr (set_flag direction True this)
             else Inr (set_flag direction False this))
      else Inr (set_flag direction True this))"

definition stop :: "jsval \<Rightarrow> component \<Rightarrow> outcome" where
  "stop st this =
     (let stopped = this\<lparr> down := False, downLeft := False, left := False, upLeft := False,
                          up := False, upRight := False, right := False, downRight := False \<rparr>
      in if \<not> truthy st then Inr stopped
         else (case get_prop st ''pressed'' of
                 Inl e \<Rightarrow> Inl (e, this)
               | Inr pressed \<Rightarrow> if truthy pressed then Inr stopped else Inr this))"

subsection \<open>The tick handler\<close>

text \<open>
  The branches of \<^verbatim>\<open>handle-logic\<close> that choose the velocity: the values of \<^verbatim>\<open>vX\<close>,
  \<^verbatim>\<open>vY\<close> and \<^verbatim>\<open>this.moving\<close> at the end of the chain of \<^verbatim>\<open>if\<close>s. Both velocities start
  as the number 0. Unary minus and \<^verbatim>\<open>/\<close> convert \<^verbatim>\<open>this.speed\<close> to a number, which may
  throw, and then \<^verbatim>\<open>this.moving\<close> is not written yet; the branches for \<^verbatim>\<open>right\<close> and
  \<^verbatim>\<open>down\<close> store \<^verbatim>\<open>this.speed\<close> as it is.
\<close>

definition velocity :: "runtime \<Rightarrow> component \<Rightarrow> error + (jsval \<times> jsval \<times> bool)" where
  "velocity rt this =
     (let upLeft' = (upLeft this \<or> (up this \<and> left this));
          downLeft' = (downLeft this \<or> (down this \<and> left this));
          downRight' = (downRight this \<or> (down this \<and> right this));
          upRight' = (upRight this \<or> (up this \<and> right this))
      in if up this \<and> down this then Inr (Number (Finite 0), Number (Finite 0), False)
         else if left this \<and> right this then Inr (Number (Finite 0), Number (Finite 0), False)
         else if upLeft' then
           (case to_number rt (speed this) of
              Inl e \<Rightarrow> Inl e
            | Inr v \<Rightarrow> Inr
                (Number (num_div (num_neg v) (Finite (1414 / 1000))),
                 Number (num_div (num_neg v) (Finite (1414 / 1000))), True))
         else if upRight' then
           (case to_number rt (speed this) of
              Inl e \<Rightarrow> Inl e
            | Inr v \<Rightarrow> Inr
                (Number (num_div v (Finite (1414 / 1000))),
                 Number (num_div (num_neg v) (Finite (1414 / 1000))), True))
         else if downLeft' then
           (case to_number rt (speed this) of
              Inl e \<Rightarrow> Inl e
            | Inr v \<Rightarrow> Inr
                (Number (num_div (num_neg v) (Finite (1414 / 1000))),
                 Number (num_div v (Finite (1414 / 1000))), True))
         else if downRight' then
           (case to_number rt (speed this) of
              Inl e \<Rightarrow> Inl e
            | Inr v \<Rightarrow> Inr
                (Number (num_div v (Finite (1414 / 1000))),
                 Number (num_div v (Finite (1414 / 1000))), True))
         else if left this then
           (case to_number rt (speed this) of
              Inl e \<Rightarrow> Inl e
            | Inr v \<Rightarrow> Inr (Number (num_neg v), Number (Finite 0), True))
         else if right this then Inr (speed this, Number (Finite 0), True)
         else if up this then
           (case to_number rt (speed this) of
              Inl e \<Rightarrow> Inl e
            | Inr v \<Rightarrow> Inr (Number (Finite 0), Number (num_neg v), True))
         else if down this then Inr (Number (Finite 0), speed this, True)
         else Inr (Number (Finite 0), Number (Finite 0), False))"

text \<open>
  The five comparisons of \<^verbatim>\<open>this.state\<close> with the new values, in the order of the source:
  each one writes the field that differs and raises \<^verbatim>\<open>stateChanged\<close>.
\<close>

definition update_state ::
  "logical_state \<Rightarrow> bool \<Rightarrow> bool \<Rightarrow> bool \<Rightarrow> bool \<Rightarrow> bool \<Rightarrow> logical_state \<times> bool" where
  "update_state st0 moving' up' right' down' left' =
     (let (st1, c1) = (if state_moving st0 \<noteq> moving'
                       then (st0\<lparr>state_moving := moving'\<rparr>, True) else (st0, False));
          (st2, c2) = (if state_up st1 \<noteq> up'
                       then (st1\<lparr>state_up := up'\<rparr>, True) else (st1, c1));
          (st3, c3) = (if state_right st2 \<noteq> right'
                       then (st2\<lparr>state_right := right'\<rparr>, True) else (st2, c2));
          (st4, c4) = (if state_down st3 \<noteq> down'
                       then (st3\<lparr>state_down := down'\<rparr>, True) else (st3, c3));
          (st5, c5) = (if state_left st4 \<noteq> left'
                       then (st4\<lparr>state_left := left'\<rparr>, True) else (st4, c4))
      in (st5, c5))"

text \<open>
  \<^verbatim>\<open>proto['handle-logic'] = function(resp)\<close>. A throw in the velocity branches leaves the
  component untouched. After them \<^verbatim>\<open>this.moving\<close> is written; then \<^verbatim>\<open>vX * resp.deltaT\<close>
  reads \<^verbatim>\<open>resp.deltaT\<close> and converts \<^verbatim>\<open>vX\<close> and \<^verbatim>\<open>resp.deltaT\<close>, each of which may throw,
  before \<^verbatim>\<open>owner.x\<close> is written; then \<^verbatim>\<open>vY * resp.deltaT\<close> converts \<^verbatim>\<open>vY\<close>, which may
  throw with \<^verbatim>\<open>owner.x\<close> written and \<^verbatim>\<open>owner.y\<close> not (reading and converting
  \<^verbatim>\<open>resp.deltaT\<close> a second time gives what it gave the first time).
\<close>

definition handle_logic :: "runtime \<Rightarrow> jsval \<Rightarrow> component \<Rightarrow> outcome" where
  "handle_logic rt resp this =
     (let up' = (up this \<or> upLeft this \<or> downLeft this);
          left' = (left this \<or> upLeft this \<or> downLeft this);
          down' = (down this \<or> downLeft this \<or> downRight this);
          right' = (right this \<or> upRight this \<or> downRight this)
      in case velocity rt this of
           Inl e \<Rightarrow> Inl (e, this)
         | Inr (vX, vY, moving') \<Rightarrow>
             let this1 = this\<lparr>moving := moving'\<rparr>
             in case get_prop resp ''deltaT'' of
                  Inl e \<Rightarrow> Inl (e, this1)
                | Inr deltaT \<Rightarrow>
                    (case to_number rt vX of
                       Inl e \<Rightarrow> Inl (e, this1)
                     | Inr nX \<Rightarrow>
                         (case to_number rt deltaT of
                            Inl e \<Rightarrow> Inl (e, this1)
                          | Inr dT \<Rightarrow>
                              let own1 = (owner this1)
                                    \<lparr>owner_x := num_add rt (owner_x (owner this1))
                                                  (num_mul rt nX dT)\<rparr>
                              in case to_number rt vY of
                                   Inl e \<Rightarrow> Inl (e, this1\<lparr>owner := own1\<rparr>)
                                 | Inr nY \<Rightarrow>
                                     let own2 = own1
                                           \<lparr>owner_y := num_add rt (owner_y own1)
                                                         (num_mul rt nY dT)\<rparr>;
                                         (st, stateChanged) =
                                           update_state (state this1) (moving this1)
                                             up' right' down' left';
                                         own3 = (if stateChanged
                                                 then own2\<lparr>triggered := triggered own2
                                                         @ [(''logical-state'', st)]\<rparr>
                                                 else own2)
                                     in Inr (this1\<lparr>owner := own3, state := st\<rparr>))))"

subsection \<open>Message dispatch\<close>

text \<open>The table of the directional handlers: message name and the flag it writes.\<close>

definition directions :: "(string \<times> direction) list" where
  "directions =
     [(''go-down'', Down), (''go-south'', Down),
      (''go-down-left'', DownLeft), (''go-southwest'', DownLeft),
      (''go-left'', Left), (''go-west'', Left),
      (''go-up-left'', UpLeft), (''go-northwest'', UpLeft),
      (''go-up'', Up), (''go-north'', Up),
      (''go-up-right'', UpRight), (''go-northeast'', UpRight),
      (''go-right'', Right), (''go-east'', Right),
      (''go-down-right'', DownRight), (''go-southeast'', DownRight)]"

text \<open>The message handlers of the prototype, by name.\<close>

definition proto ::
  "runtime \<Rightarrow> string \<Rightarrow> (jsval \<Rightarrow> component \<Rightarrow> outcome) option" where
  "proto rt name =
     (if name = ''handle-logic'' then Some (handle_logic rt)
      else if name = ''stop'' then Some stop
      else map_option processDirection (map_of directions name))"

text \<open>
  A message triggered on the owner reaches the component through the function that
  \<^verbatim>\<open>addListener\<close> bound for its name, which calls \<^verbatim>\<open>self[messageId](value, debug)\<close>; a
  message the component did not bind does not reach it.
\<close>

definition dispatch :: "runtime \<Rightarrow> string \<Rightarrow> jsval \<Rightarrow> component \<Rightarrow> outcome" where
  "dispatch rt messageId val this =
     (if messageId \<in> set listeners then
        (case proto rt messageId of
           None \<Rightarrow> Inl (TypeError, this)
         | Some handler \<Rightarrow> handler val this)
      else Inr this)"

text \<open>
  A sequence of messages, each handled to completion before the next. A handler that throws
  leaves the component as it was at the throw, and the next message finds it so.
\<close>

fun run :: "runtime \<Rightarrow> (string \<times> jsval) list \<Rightarrow> component \<Rightarrow> component" where
  "run rt [] this = this"
| "run rt ((messageId, val) # ms) this =
     run rt ms (after (dispatch rt messageId val this))"

subsection \<open>Sample inputs\<close>

text \<open>
  An entity at the origin and one away from it, on which nothing was triggered yet; the
  component the constructor builds at the origin from the empty definition; and a runtime
  under which no string denotes a number and no sum or product is rounded (the sample
  inputs hold no string, and their sums and products are doubles).
\<close>

definition origin :: entity where
  "origin = \<lparr> owner_x = Finite 0, owner_y = Finite 0, triggered = [] \<rparr>"

definition elsewhere :: entity where
  "elsewhere = \<lparr> owner_x = Finite 5, owner_y = Finite 100, triggered = [] \<rparr>"

definition fresh :: component where
  "fresh =
     \<lparr> owner = origin, speed = Number (Finite (3 / 10)),
       state = \<lparr> state_moving = False, state_left = False, state_right = False,
                 state_up = False, state_down = False \<rparr>,
       moving = False, left = False, right = False, up = False, down = False,
       upLeft = False, upRight = False, downLeft = False, downRight = False \<rparr>"

definition unrounded :: runtime where
  "unrounded = \<lparr> string_to_number = (\<lambda>s. NaN), round_double = Finite \<rparr>"


section \<open>Properties\<close>

subsection \<open>Auxiliary facts\<close>

lemma fresh_constructed: "component origin (Object []) = Inr fresh"
  by (simp add: component_def fresh_def js_or_def)

lemma elsewhere_constructed: "component elsewhere (Object []) = Inr (fresh\<lparr>owner := elsewhere\<rparr>)"
  by (simp add: component_def fresh_def js_or_def)

lemma num_add_zero [simp]: "num_add rt a (Finite 0) = a"
  by (cases a) auto

lemma update_state_eq:
  "update_state st0 m u r d l =
     (\<lparr> state_moving = m, state_left = l, state_right = r, state_up = u, state_down = d \<rparr>,
      state_moving st0 \<noteq> m \<or> state_up st0 \<noteq> u \<or> state_right st0 \<noteq> r
        \<or> state_down st0 \<noteq> d \<or> state_left st0 \<noteq> l)"
  by (cases st0) (auto simp: update_state_def)

text \<open>
  When \<^verbatim>\<open>this.speed\<close> converts to a number, the velocity branches do not throw and
  leave velocities that convert.
\<close>

lemma velocity_converts:
  assumes "to_number rt (speed this) = Inr v"
  shows "\<exists>vX vY m nX nY. velocity rt this = Inr (vX, vY, m)
     \<and> to_number rt vX = Inr nX \<and> to_number rt vY = Inr nY"
  using assms by (auto simp: velocity_def Let_def)

text \<open>
  When nothing throws, the tick handler returns, and this is all it changes.
\<close>

lemma handle_logic_returns:
  assumes "velocity rt this = Inr (vX, vY, m)"
    and "get_prop resp ''deltaT'' = Inr deltaT"
    and "to_number rt vX = Inr nX" and "to_number rt deltaT = Inr dT"
    and "to_number rt vY = Inr nY"
  shows "handle_logic rt resp this =
     Inr (this\<lparr> moving := m,
               state :=
                 \<lparr> state_moving = m,
                   state_left = (left this \<or> upLeft this \<or> downLeft this),
                   state_right = (right this \<or> upRight this \<or> downRight this),
                   state_up = (up this \<or> upLeft this \<or> downLeft this),
                   state_down = (down this \<or> downLeft this \<or> downRight this) \<rparr>,
               owner := (owner this)
                 \<lparr> owner_x := num_add rt (owner_x (owner this)) (num_mul rt nX dT),
                   owner_y := num_add rt (owner_y (owner this)) (num_mul rt nY dT),
                   triggered := triggered (owner this) @
                     (if state_moving (state this) \<noteq> m
                         \<or> state_up (state this) \<noteq> (up this \<or> upLeft this \<or> downLeft this)
                         \<or> state_right (state this)
                              \<noteq> (right this \<or> upRight this \<or> downRight this)
                         \<or> state_down (state this)
                              \<noteq> (down this \<or> downLeft this \<or> downRight this)
                         \<or> state_left (state this)
                              \<noteq> (left this \<or> upLeft this \<or> downLeft this)
                      then [(''logical-state'',
                         \<lparr> state_moving = m,
                           state_left = (left this \<or> upLeft this \<or> downLeft this),
                           state_right = (right this \<or> upRight this \<or> downRight this),
                           state_up = (up this \<or> upLeft this \<or> downLeft this),
                           state_down = (down this \<or> downLeft this \<or> downRight this) \<rparr>)]
                      else []) \<rparr> \<rparr>)"
  using assms
  by (simp add: handle_logic_def update_state_eq Let_def)

text \<open>
  Whether it returns or throws after the velocity branches, the tick handler leaves
  \<^verbatim>\<open>this.moving\<close> as resolved; and it never writes a flag or the speed.
\<close>

lemma handle_logic_moving:
  assumes "velocity rt this = Inr (vX, vY, m)"
  shows "moving (after (handle_logic rt resp this)) = m"
  using assms
  by (simp add: handle_logic_def Let_def split: sum.splits prod.splits)

lemma handle_logic_flags:
  "flag direction (after (handle_logic rt resp this)) = flag direction this"
  by (cases direction)
     (simp_all add: handle_logic_def Let_def split: sum.splits prod.splits)

lemma handle_logic_speed: "speed (after (handle_logic rt resp this)) = speed this"
  by (simp add: handle_logic_def Let_def split: sum.splits prod.splits)

lemma velocity_opposing:
  "(up this \<and> down this) \<or> (left this \<and> right this) \<Longrightarrow>
     velocity rt this = Inr (Number (Finite 0), Number (Finite 0), False)"
  by (auto simp: velocity_def Let_def)

lemma flag_set_flag: "flag direction (set_flag direction b this) = b"
  by (cases direction) simp_all

text \<open>The table has sixteen names, all different, all bound by the constructor.\<close>

lemma directions_count: "length directions = 16 \<and> distinct (map fst directions)"
  by (simp add: directions_def)

lemma directions_listeners: "set (map fst directions) \<subseteq> set listeners"
  by (simp add: directions_def listeners_def)

lemma directions_other:
  "''handle-logic'' \<notin> set (map fst directions)" "''stop'' \<notin> set (map fst directions)"
  by (simp_all add: directions_def)

lemma directions_cases:
  assumes "(messageId, direction) \<in> set directions"
  shows "messageId \<in> set listeners" "messageId \<noteq> ''handle-logic''" "messageId \<noteq> ''stop''"
    "map_of directions messageId = Some direction"
proof -
  from assms have m: "messageId \<in> set (map fst directions)"
    by force
  with directions_listeners show "messageId \<in> set listeners"
    by blast
  from m directions_other show "messageId \<noteq> ''handle-logic''" "messageId \<noteq> ''stop''"
    by blast+
  from assms directions_count show "map_of directions messageId = Some direction"
    by simp
qed

text \<open>What each bound name calls.\<close>

lemma dispatch_directional:
  assumes "(messageId, direction) \<in> set directions"
  shows "dispatch rt messageId val this = processDirection direction val this"
  using directions_cases [OF assms] by (simp add: dispatch_def proto_def)

lemma dispatch_stop: "dispatch rt ''stop'' val this = stop val this"
  by (simp add: dispatch_def proto_def listeners_def)

lemma dispatch_handle_logic:
  "dispatch rt ''handle-logic'' val this = handle_logic rt val this"
  by (simp add: dispatch_def proto_def listeners_def)

text \<open>What the constructor builds, whatever the speed.\<close>

lemma component_fields:
  assumes "component own definition = Inr this"
  shows "owner this = own"
    and "state this = \<lparr> state_moving = False, state_left = False, state_right = False,
                 state_up = False, state_down = False \<rparr>"
    and "moving this = False" and "left this = False" and "right this = False"
    and "up this = False" and "down this = False" and "upLeft this = False"
    and "upRight this = False" and "downLeft this = False" and "downRight this = False"
  using assms by (auto simp: component_def split: sum.splits)


text \<open>The values that are not truthy.\<close>

lemma falsy_values:
  "(\<not> truthy s) =
     (s \<in> {Undefined, Null, Boolean False, Number (Finite 0), Number NaN, String []})"
  by (cases s) auto

text \<open>The directional handlers and \<^verbatim>\<open>stop\<close> do not touch the owner.\<close>

lemma owner_set_flag: "owner (set_flag direction b this) = owner this"
  by (cases direction) simp_all

lemma owner_processDirection: "owner (after (processDirection direction val this)) = owner this"
  by (simp add: processDirection_def owner_set_flag split: sum.splits)

lemma owner_stop: "owner (after (stop val this)) = owner this"
  by (simp add: stop_def Let_def split: sum.splits)

text \<open>One message triggers nothing on the owner but \<^verbatim>\<open>logical-state\<close>.\<close>

lemma triggered_handle_logic:
  "\<exists>es. triggered (owner (after (handle_logic rt resp this))) = triggered (owner this) @ es
     \<and> (\<forall>e\<in>set es. fst e = ''logical-state'')"
  by (simp add: handle_logic_def update_state_eq Let_def split: sum.splits prod.splits)

lemma triggered_dispatch:
  "\<exists>es. triggered (owner (after (dispatch rt messageId val this)))
       = triggered (owner this) @ es
     \<and> (\<forall>e\<in>set es. fst e = ''logical-state'')"
proof (cases "messageId \<in> set listeners")
  case False
  then show ?thesis by (simp add: dispatch_def)
next
  case True
  show ?thesis
  proof (cases "messageId = ''handle-logic''")
    case True
    then show ?thesis
      using triggered_handle_logic [of rt val this]
      by (simp only: dispatch_handle_logic)
  next
    case hl: False
    show ?thesis
    proof (cases "messageId = ''stop''")
      case True
      then show ?thesis
        by (simp add: dispatch_stop owner_stop)
    next
      case st: False
      show ?thesis
      proof (cases "map_of directions messageId")
        case None
        with True hl st show ?thesis
          by (simp add: dispatch_def proto_def)
      next
        case (Some direction)
        with True hl st show ?thesis
          by (simp add: dispatch_def proto_def owner_processDirection)
      qed
    qed
  qed
qed

subsection \<open>Opposing cardinal flags\<close>

text \<open>
  Claim C1. When \<^verbatim>\<open>up\<close> and \<^verbatim>\<open>down\<close> are both set, or \<^verbatim>\<open>left\<close> and \<^verbatim>\<open>right\<close> are, one
  call of the tick handler resolves the velocity (0, 0) and leaves \<^verbatim>\<open>moving\<close> false,
  whatever the other six flags are; and when \<^verbatim>\<open>deltaT\<close> is a finite number, the handler
  returns with \<^verbatim>\<open>owner.x\<close> and \<^verbatim>\<open>owner.y\<close> as they were.
\<close>

theorem opposing_cardinals_cancel:
  assumes "(up this \<and> down this) \<or> (left this \<and> right this)"
  shows "velocity rt this = Inr (Number (Finite 0), Number (Finite 0), False)
     \<and> moving (after (handle_logic rt resp this)) = False
     \<and> (\<forall>d. get_prop resp ''deltaT'' = Inr (Number (Finite d)) \<longrightarrow>
          (\<exists>this'. handle_logic rt resp this = Inr this'
             \<and> moving this' = False
             \<and> owner_x (owner this') = owner_x (owner this)
             \<and> owner_y (owner this') = owner_y (owner this)))"
proof -
  have v: "velocity rt this = Inr (Number (Finite 0), Number (Finite 0), False)"
    using assms by (rule velocity_opposing)
  have m: "moving (after (handle_logic rt resp this)) = False"
    by (rule handle_logic_moving [OF v])
  have "\<exists>this'. handle_logic rt resp this = Inr this'
             \<and> moving this' = False
             \<and> owner_x (owner this') = owner_x (owner this)
             \<and> owner_y (owner this') = owner_y (owner this)"
    if "get_prop resp ''deltaT'' = Inr (Number (Finite d))" for d
    by (simp add: handle_logic_returns [OF v that, of "Finite 0" "Finite d" "Finite 0"])
  with v m show ?thesis by blast
qed

text \<open>
  The theorem at a component with \<^verbatim>\<open>up\<close>, \<^verbatim>\<open>down\<close>, \<^verbatim>\<open>upLeft\<close> and \<^verbatim>\<open>right\<close> set, and a
  tick of 16.
\<close>

theorem opposing_cardinals_cancel_witness:
  "((up (fresh\<lparr>up := True, down := True, upLeft := True, right := True\<rparr>)
       \<and> down (fresh\<lparr>up := True, down := True, upLeft := True, right := True\<rparr>))
     \<or> (left (fresh\<lparr>up := True, down := True, upLeft := True, right := True\<rparr>)
       \<and> right (fresh\<lparr>up := True, down := True, upLeft := True, right := True\<rparr>)))
   \<and> get_prop (Object [(''deltaT'', Number (Finite 16))]) ''deltaT'' = Inr (Number (Finite 16))
   \<and> velocity unrounded (fresh\<lparr>up := True, down := True, upLeft := True, right := True\<rparr>)
       = Inr (Number (Finite 0), Number (Finite 0), False)
   \<and> (\<exists>this'. handle_logic unrounded (Object [(''deltaT'', Number (Finite 16))])
          (fresh\<lparr>up := True, down := True, upLeft := True, right := True\<rparr>) = Inr this'
        \<and> moving this' = False
        \<and> owner_x (owner this') = Finite 0
        \<and> owner_y (owner this') = Finite 0)"
proof -
  have h: "(up (fresh\<lparr>up := True, down := True, upLeft := True, right := True\<rparr>)
       \<and> down (fresh\<lparr>up := True, down := True, upLeft := True, right := True\<rparr>))
     \<or> (left (fresh\<lparr>up := True, down := True, upLeft := True, right := True\<rparr>)
       \<and> right (fresh\<lparr>up := True, down := True, upLeft := True, right := True\<rparr>))"
    by simp
  have g: "get_prop (Object [(''deltaT'', Number (Finite 16))]) ''deltaT''
      = Inr (Number (Finite 16))"
    by simp
  have o: "owner_x (owner (fresh\<lparr>up := True, down := True, upLeft := True, right := True\<rparr>))
      = Finite 0"
    "owner_y (owner (fresh\<lparr>up := True, down := True, upLeft := True, right := True\<rparr>))
      = Finite 0"
    by (simp_all add: fresh_def origin_def)
  from opposing_cardinals_cancel
         [OF h, of unrounded "Object [(''deltaT'', Number (Finite 16))]"] h g o
  show ?thesis by metis
qed

subsection \<open>Directional messages\<close>

text \<open>
  Claim C2, as the code has it. For each of the sixteen directional messages and every
  prior state, the handler called with no payload sets the flag of its direction to true.
  Called with a payload object that has no \<^verbatim>\<open>pressed\<close> field it sets that flag to false:
  the payload is there, and its \<^verbatim>\<open>pressed\<close> is \<^verbatim>\<open>undefined\<close>, which is not truthy.
\<close>

theorem directional_without_pressed:
  assumes "(messageId, direction) \<in> set directions"
  shows "length directions = 16 \<and> distinct (map fst directions)
     \<and> dispatch rt messageId Undefined this = Inr (set_flag direction True this)
     \<and> flag direction (set_flag direction True this) = True
     \<and> (\<forall>fs. map_of fs ''pressed'' = None \<longrightarrow>
           dispatch rt messageId (Object fs) this = Inr (set_flag direction False this))
     \<and> flag direction (set_flag direction False this) = False"
  using directions_count
  by (simp add: dispatch_directional [OF assms] processDirection_def flag_set_flag)

text \<open>
  The theorem at \<^verbatim>\<open>go-north\<close>: with no payload on a component at rest, then with a payload
  that has another field only.
\<close>

theorem directional_without_pressed_witness:
  "(''go-north'', Up) \<in> set directions
   \<and> map_of [(''other'', Boolean True)] ''pressed'' = None
   \<and> dispatch unrounded ''go-north'' Undefined fresh = Inr (fresh\<lparr>up := True\<rparr>)
   \<and> dispatch unrounded ''go-north'' (Object [(''other'', Boolean True)]) (fresh\<lparr>up := True\<rparr>)
       = Inr (fresh\<lparr>up := False\<rparr>)"
proof -
  have h: "(''go-north'', Up) \<in> set directions"
    by (simp add: directions_def)
  have g: "map_of [(''other'', Boolean True)] ''pressed'' = (None :: jsval option)"
    by simp
  from directional_without_pressed [OF h, of unrounded fresh]
  have a: "dispatch unrounded ''go-north'' Undefined fresh = Inr (fresh\<lparr>up := True\<rparr>)"
    by simp
  from directional_without_pressed [OF h, of unrounded "fresh\<lparr>up := True\<rparr>"] g
  have b: "dispatch unrounded ''go-north'' (Object [(''other'', Boolean True)])
       (fresh\<lparr>up := True\<rparr>) = Inr (fresh\<lparr>up := False\<rparr>)"
    by simp
  from h g a b show ?thesis by blast
qed

text \<open>
  The claim as stated fails: \<^verbatim>\<open>go-up\<close> with the empty object as payload, on a component
  whose \<^verbatim>\<open>up\<close> flag is set, clears the flag.
\<close>

theorem directional_without_pressed_counterexample:
  "dispatch unrounded ''go-up'' (Object []) (fresh\<lparr>up := True\<rparr>) = Inr (fresh\<lparr>up := False\<rparr>)
   \<and> up (fresh\<lparr>up := False\<rparr>) = False"
proof -
  have "(''go-up'', Up) \<in> set directions"
    by (simp add: directions_def)
  then show ?thesis
    by (simp add: dispatch_directional processDirection_def)
qed

subsection \<open>The stop message\<close>

text \<open>
  Claim C3. For every prior state, \<^verbatim>\<open>stop\<close> with no payload, or with a payload whose
  \<^verbatim>\<open>pressed\<close> is true, sets all eight flags to false; with a payload whose \<^verbatim>\<open>pressed\<close>
  is false it changes nothing.
\<close>

theorem stop_clears_or_keeps:
  "dispatch rt ''stop'' Undefined this =
      Inr (this\<lparr> down := False, downLeft := False, left := False, upLeft := False,
                up := False, upRight := False, right := False, downRight := False \<rparr>)
   \<and> (\<forall>fs. map_of fs ''pressed'' = Some (Boolean True) \<longrightarrow>
         dispatch rt ''stop'' (Object fs) this =
           Inr (this\<lparr> down := False, downLeft := False, left := False, upLeft := False,
                     up := False, upRight := False, right := False, downRight := False \<rparr>))
   \<and> (\<forall>direction.
         flag direction
           (this\<lparr> down := False, downLeft := False, left := False, upLeft := False,
                  up := False, upRight := False, right := False, downRight := False \<rparr>)
         = False)
   \<and> (\<forall>fs. map_of fs ''pressed'' = Some (Boolean False) \<longrightarrow>
         dispatch rt ''stop'' (Object fs) this = Inr this)"
proof -
  have "flag direction
           (this\<lparr> down := False, downLeft := False, left := False, upLeft := False,
                  up := False, upRight := False, right := False, downRight := False \<rparr>)
         = False" for direction
    by (cases direction) simp_all
  then show ?thesis
    by (simp add: dispatch_stop stop_def)
qed

text \<open>
  The theorem at a component moving up and right: a pressed \<^verbatim>\<open>stop\<close> brings it back to
  rest, a released one leaves it moving.
\<close>

theorem stop_clears_or_keeps_witness:
  "map_of [(''pressed'', Boolean True)] ''pressed'' = Some (Boolean True)
   \<and> map_of [(''pressed'', Boolean False)] ''pressed'' = Some (Boolean False)
   \<and> dispatch unrounded ''stop'' Undefined (fresh\<lparr>right := True, up := True\<rparr>) = Inr fresh
   \<and> dispatch unrounded ''stop'' (Object [(''pressed'', Boolean True)])
        (fresh\<lparr>right := True, up := True\<rparr>) = Inr fresh
   \<and> dispatch unrounded ''stop'' (Object [(''pressed'', Boolean False)])
        (fresh\<lparr>right := True, up := True\<rparr>) = Inr (fresh\<lparr>right := True, up := True\<rparr>)"
proof -
  have t: "map_of [(''pressed'', Boolean True)] ''pressed'' = Some (Boolean True)"
    and f: "map_of [(''pressed'', Boolean False)] ''pressed'' = Some (Boolean False)"
    by simp_all
  have r: "(fresh\<lparr>right := True, up := True\<rparr>)
       \<lparr> down := False, downLeft := False, left := False, upLeft := False,
         up := False, upRight := False, right := False, downRight := False \<rparr> = fresh"
    by (simp add: fresh_def)
  from stop_clears_or_keeps [of unrounded "fresh\<lparr>right := True, up := True\<rparr>"] t f r
  show ?thesis by simp
qed

subsection \<open>Diagonal movement\<close>




subsection \<open>Movement along one axis\<close>

text \<open>
  Claim C5. When exactly one cardinal flag is set and no other flag is, and the speed
  converts to a number, the tick handler resolves the velocity \<^verbatim>\<open>speed\<close> along that flag's
  axis, towards its side, and 0 on the other axis, and sets \<^verbatim>\<open>moving\<close> to true. For a
  component as constructed, with the speed 0.3: after \<^verbatim>\<open>go-up\<close> with no payload, a tick
  with \<^verbatim>\<open>deltaT\<close> = 10 adds \<^verbatim>\<open>-0.3 * 10\<close> to \<^verbatim>\<open>owner.y\<close>, which lowers it by 3 wherever
  the runtime rounds neither the product -3 nor the sum, leaves \<^verbatim>\<open>owner.x\<close> as it was and
  triggers \<^verbatim>\<open>logical-state\<close> once, with \<^verbatim>\<open>moving\<close> and \<^verbatim>\<open>up\<close> true and \<^verbatim>\<open>down\<close>,
  \<^verbatim>\<open>left\<close>, \<^verbatim>\<open>right\<close> false.
\<close>

theorem single_cardinal_velocity:
  assumes "\<not> upLeft this" "\<not> upRight this" "\<not> downLeft this" "\<not> downRight this"
    and "to_number rt (speed this) = Inr v"
  shows "(up this \<and> \<not> down this \<and> \<not> left this \<and> \<not> right this \<longrightarrow>
            velocity rt this = Inr (Number (Finite 0), Number (num_neg v), True)
            \<and> moving (after (handle_logic rt resp this)) = True)
     \<and> (down this \<and> \<not> up this \<and> \<not> left this \<and> \<not> right this \<longrightarrow>
            velocity rt this = Inr (Number (Finite 0), speed this, True)
            \<and> moving (after (handle_logic rt resp this)) = True)
     \<and> (left this \<and> \<not> right this \<and> \<not> up this \<and> \<not> down this \<longrightarrow>
            velocity rt this = Inr (Number (num_neg v), Number (Finite 0), True)
            \<and> moving (after (handle_logic rt resp this)) = True)
     \<and> (right this \<and> \<not> left this \<and> \<not> up this \<and> \<not> down this \<longrightarrow>
            velocity rt this = Inr (speed this, Number (Finite 0), True)
            \<and> moving (after (handle_logic rt resp this)) = True)
     \<and> (\<forall>own defn this0.
           component own defn = Inr this0 \<and> speed this0 = Number (Finite (3 / 10)) \<longrightarrow>
           (\<exists>this1 this2.
              dispatch rt ''go-up'' Undefined this0 = Inr this1
              \<and> dispatch rt ''handle-logic'' (Object [(''deltaT'', Number (Finite 10))]) this1
                  = Inr this2
              \<and> owner_y (owner this2) =
                  num_add rt (owner_y own) (num_mul rt (Finite (- (3 / 10))) (Finite 10))
              \<and> (\<forall>y. owner_y own = Finite y \<and> round_double rt (- 3) = Finite (- 3)
                      \<and> round_double rt (y - 3) = Finite (y - 3) \<longrightarrow>
                    owner_y (owner this2) = Finite (y - 3))
              \<and> owner_x (owner this2) = owner_x own
              \<and> moving this2 = True
              \<and> triggered (owner this2) = triggered own @
                   [(''logical-state'',
                     \<lparr> state_moving = True, state_left = False, state_right = False,
                       state_up = True, state_down = False \<rparr>)]))"
proof -
  have c1: "velocity rt this = Inr (Number (Finite 0), Number (num_neg v), True)
      \<and> moving (after (handle_logic rt resp this)) = True"
    if "up this \<and> \<not> down this \<and> \<not> left this \<and> \<not> right this"
  proof -
    have "velocity rt this = Inr (Number (Finite 0), Number (num_neg v), True)"
      using that assms by (simp add: velocity_def)
    with handle_logic_moving [OF this] show ?thesis by simp
  qed
  have c2: "velocity rt this = Inr (Number (Finite 0), speed this, True)
      \<and> moving (after (handle_logic rt resp this)) = True"
    if "down this \<and> \<not> up this \<and> \<not> left this \<and> \<not> right this"
  proof -
    have "velocity rt this = Inr (Number (Finite 0), speed this, True)"
      using that assms by (simp add: velocity_def)
    with handle_logic_moving [OF this] show ?thesis by simp
  qed
  have c3: "velocity rt this = Inr (Number (num_neg v), Number (Finite 0), True)
      \<and> moving (after (handle_logic rt resp this)) = True"
    if "left this \<and> \<not> right this \<and> \<not> up this \<and> \<not> down this"
  proof -
    have "velocity rt this = Inr (Number (num_neg v), Number (Finite 0), True)"
      using that assms by (simp add: velocity_def)
    with handle_logic_moving [OF this] show ?thesis by simp
  qed
  have c4: "velocity rt this = Inr (speed this, Number (Finite 0), True)
      \<and> moving (after (handle_logic rt resp this)) = True"
    if "right this \<and> \<not> left this \<and> \<not> up this \<and> \<not> down this"
  proof -
    have "velocity rt this = Inr (speed this, Number (Finite 0), True)"
      using that assms by (simp add: velocity_def)
    with handle_logic_moving [OF this] show ?thesis by simp
  qed
  have s: "\<exists>this1 this2.
              dispatch rt ''go-up'' Undefined this0 = Inr this1
              \<and> dispatch rt ''handle-logic'' (Object [(''deltaT'', Number (Finite 10))]) this1
                  = Inr this2
              \<and> owner_y (owner this2) =
                  num_add rt (owner_y own) (num_mul rt (Finite (- (3 / 10))) (Finite 10))
              \<and> (\<forall>y. owner_y own = Finite y \<and> round_double rt (- 3) = Finite (- 3)
                      \<and> round_double rt (y - 3) = Finite (y - 3) \<longrightarrow>
                    owner_y (owner this2) = Finite (y - 3))
              \<and> owner_x (owner this2) = owner_x own
              \<and> moving this2 = True
              \<and> triggered (owner this2) = triggered own @
                   [(''logical-state'',
                     \<lparr> state_moving = True, state_left = False, state_right = False,
                       state_up = True, state_down = False \<rparr>)]"
    if b: "component own defn = Inr this0" and sp: "speed this0 = Number (Finite (3 / 10))"
    for own defn this0
  proof -
    have u: "(''go-up'', Up) \<in> set directions"
      by (simp add: directions_def)
    have g: "get_prop (Object [(''deltaT'', Number (Finite 10))]) ''deltaT''
        = Inr (Number (Finite 10))"
      by simp
    have v: "velocity rt (this0\<lparr>up := True\<rparr>)
        = Inr (Number (Finite 0), Number (Finite (- (3 / 10))), True)"
      by (simp add: velocity_def sp component_fields [OF b])
    note r = handle_logic_returns [OF v g, of "Finite 0" "Finite 10" "Finite (- (3 / 10))"]
    show ?thesis
      by (simp add: dispatch_directional [OF u] dispatch_handle_logic processDirection_def
            r component_fields [OF b])
  qed
  show ?thesis
  proof (intro conjI impI allI)
    show "\<exists>this1 this2.
              dispatch rt ''go-up'' Undefined this0 = Inr this1
              \<and> dispatch rt ''handle-logic'' (Object [(''deltaT'', Number (Finite 10))]) this1
                  = Inr this2
              \<and> owner_y (owner this2) =
                  num_add rt (owner_y own) (num_mul rt (Finite (- (3 / 10))) (Finite 10))
              \<and> (\<forall>y. owner_y own = Finite y \<and> round_double rt (- 3) = Finite (- 3)
                      \<and> round_double rt (y - 3) = Finite (y - 3) \<longrightarrow>
                    owner_y (owner this2) = Finite (y - 3))
              \<and> owner_x (owner this2) = owner_x own
              \<and> moving this2 = True
              \<and> triggered (owner this2) = triggered own @
                   [(''logical-state'',
                     \<lparr> state_moving = True, state_left = False, state_right = False,
                       state_up = True, state_down = False \<rparr>)]"
      if "component own defn = Inr this0 \<and> speed this0 = Number (Finite (3 / 10))"
      for own defn this0
      using that s by blast
  qed (use c1 c2 c3 c4 in blast)+
qed

text \<open>
  The theorem at a component with \<^verbatim>\<open>down\<close> alone set, and the scenario at the component
  the constructor builds from the empty definition for an entity at (5, 100): the tick
  takes it to (5, 97).
\<close>

theorem single_cardinal_velocity_witness:
  "\<not> upLeft (fresh\<lparr>down := True\<rparr>) \<and> \<not> upRight (fresh\<lparr>down := True\<rparr>)
   \<and> \<not> downLeft (fresh\<lparr>down := True\<rparr>) \<and> \<not> downRight (fresh\<lparr>down := True\<rparr>)
   \<and> to_number unrounded (speed (fresh\<lparr>down := True\<rparr>)) = Inr (Finite (3 / 10))
   \<and> down (fresh\<lparr>down := True\<rparr>) \<and> \<not> up (fresh\<lparr>down := True\<rparr>)
   \<and> \<not> left (fresh\<lparr>down := True\<rparr>) \<and> \<not> right (fresh\<lparr>down := True\<rparr>)
   \<and> velocity unrounded (fresh\<lparr>down := True\<rparr>)
       = Inr (Number (Finite 0), Number (Finite (3 / 10)), True)
   \<and> moving (after (handle_logic unrounded Undefined (fresh\<lparr>down := True\<rparr>))) = True
   \<and> component elsewhere (Object []) = Inr (fresh\<lparr>owner := elsewhere\<rparr>)
   \<and> speed (fresh\<lparr>owner := elsewhere\<rparr>) = Number (Finite (3 / 10))
   \<and> owner_y elsewhere = Finite 100
   \<and> round_double unrounded (- 3) = Finite (- 3)
   \<and> round_double unrounded (100 - 3) = Finite (100 - 3)
   \<and> (\<exists>this1 this2.
         dispatch unrounded ''go-up'' Undefined (fresh\<lparr>owner := elsewhere\<rparr>) = Inr this1
         \<and> dispatch unrounded ''handle-logic'' (Object [(''deltaT'', Number (Finite 10))]) this1
             = Inr this2
         \<and> owner_y (owner this2) = Finite 97
         \<and> owner_x (owner this2) = Finite 5
         \<and> moving this2 = True
         \<and> triggered (owner this2) =
              [(''logical-state'',
                \<lparr> state_moving = True, state_left = False, state_right = False,
                  state_up = True, state_down = False \<rparr>)])"
proof -
  have h: "\<not> upLeft (fresh\<lparr>down := True\<rparr>)" "\<not> upRight (fresh\<lparr>down := True\<rparr>)"
    "\<not> downLeft (fresh\<lparr>down := True\<rparr>)" "\<not> downRight (fresh\<lparr>down := True\<rparr>)"
    "to_number unrounded (speed (fresh\<lparr>down := True\<rparr>)) = Inr (Finite (3 / 10))"
    and k: "down (fresh\<lparr>down := True\<rparr>)" "\<not> up (fresh\<lparr>down := True\<rparr>)"
    "\<not> left (fresh\<lparr>down := True\<rparr>)" "\<not> right (fresh\<lparr>down := True\<rparr>)"
    and sp: "speed (fresh\<lparr>owner := elsewhere\<rparr>) = Number (Finite (3 / 10))"
    "speed (fresh\<lparr>down := True\<rparr>) = Number (Finite (3 / 10))"
    and o: "owner_x elsewhere = Finite 5" "owner_y elsewhere = Finite 100"
    "triggered elsewhere = []"
    and r: "round_double unrounded (- 3) = Finite (- 3)"
    "round_double unrounded (100 - 3) = Finite (100 - 3)"
    by (simp_all add: fresh_def elsewhere_def unrounded_def)
  note t = single_cardinal_velocity [OF h, of Undefined]
  from t k sp have a: "velocity unrounded (fresh\<lparr>down := True\<rparr>)
       = Inr (Number (Finite 0), Number (Finite (3 / 10)), True)
      \<and> moving (after (handle_logic unrounded Undefined (fresh\<lparr>down := True\<rparr>))) = True"
    by simp
  from t elsewhere_constructed sp(1) obtain this1 this2 where
    d1: "dispatch unrounded ''go-up'' Undefined (fresh\<lparr>owner := elsewhere\<rparr>) = Inr this1"
    and d2: "dispatch unrounded ''handle-logic''
        (Object [(''deltaT'', Number (Finite 10))]) this1 = Inr this2"
    and y: "\<forall>y. owner_y elsewhere = Finite y \<and> round_double unrounded (- 3) = Finite (- 3)
                      \<and> round_double unrounded (y - 3) = Finite (y - 3) \<longrightarrow>
                    owner_y (owner this2) = Finite (y - 3)"
    and x: "owner_x (owner this2) = owner_x elsewhere"
    and m: "moving this2 = True"
    and e: "triggered (owner this2) = triggered elsewhere @
                   [(''logical-state'',
                     \<lparr> state_moving = True, state_left = False, state_right = False,
                       state_up = True, state_down = False \<rparr>)]"
    by blast
  from y o(2) r have "owner_y (owner this2) = Finite (100 - 3)"
    by blast
  then have y': "owner_y (owner this2) = Finite 97"
    by simp
  from d1 d2 y' x m e o have b: "\<exists>this1 this2.
         dispatch unrounded ''go-up'' Undefined (fresh\<lparr>owner := elsewhere\<rparr>) = Inr this1
         \<and> dispatch unrounded ''handle-logic'' (Object [(''deltaT'', Number (Finite 10))]) this1
             = Inr this2
         \<and> owner_y (owner this2) = Finite 97
         \<and> owner_x (owner this2) = Finite 5
         \<and> moving this2 = True
         \<and> triggered (owner this2) =
              [(''logical-state'',
                \<lparr> state_moving = True, state_left = False, state_right = False,
                  state_up = True, state_down = False \<rparr>)]"
    by simp
  from h k a elsewhere_constructed sp(1) o(2) r b show ?thesis
    by blast
qed

subsection \<open>The broadcast state\<close>

text \<open>
  Claim C6, as the code has it. After a tick in which nothing throws, the state the
  component stores holds the derived cardinals, each computed from the raw intent flags
  alone: \<^verbatim>\<open>up\<close> is the \<^verbatim>\<open>up\<close> flag or the \<^verbatim>\<open>upLeft\<close> flag or the \<^verbatim>\<open>downLeft\<close> flag,
  \<^verbatim>\<open>left\<close> is the \<^verbatim>\<open>left\<close> flag or the \<^verbatim>\<open>upLeft\<close> flag or the \<^verbatim>\<open>downLeft\<close> flag,
  \<^verbatim>\<open>down\<close> is the \<^verbatim>\<open>down\<close> flag or the \<^verbatim>\<open>downLeft\<close> flag or the \<^verbatim>\<open>downRight\<close> flag,
  \<^verbatim>\<open>right\<close> is the \<^verbatim>\<open>right\<close> flag or the \<^verbatim>\<open>upRight\<close> flag or the \<^verbatim>\<open>downRight\<close> flag. A
  diagonal that is active only through its two adjacent cardinal flags does not enter
  them. When the stored state changes, the tick triggers \<^verbatim>\<open>logical-state\<close> once, with
  that state.
\<close>

theorem derived_state_broadcast:
  assumes "get_prop resp ''deltaT'' = Inr deltaT"
    and "to_number rt deltaT = Inr dT"
    and "to_number rt (speed this) = Inr v"
  shows "\<exists>this'. handle_logic rt resp this = Inr this'
     \<and> state_up (state this') = (up this \<or> upLeft this \<or> downLeft this)
     \<and> state_left (state this') = (left this \<or> upLeft this \<or> downLeft this)
     \<and> state_down (state this') = (down this \<or> downLeft this \<or> downRight this)
     \<and> state_right (state this') = (right this \<or> upRight this \<or> downRight this)
     \<and> state_moving (state this') = moving this'
     \<and> triggered (owner this') = triggered (owner this) @
          (if state this' \<noteq> state this then [(''logical-state'', state this')] else [])"
proof -
  from velocity_converts [OF assms(3)] obtain vX vY m nX nY
    where v: "velocity rt this = Inr (vX, vY, m)"
      and n: "to_number rt vX = Inr nX" "to_number rt vY = Inr nY"
    by blast
  show ?thesis
    by (cases "state this")
       (auto simp add: handle_logic_returns [OF v assms(1) n(1) assms(2) n(2)])
qed

text \<open>
  The theorem at a component with the flag \<^verbatim>\<open>downLeft\<close> alone: the broadcast state has
  \<^verbatim>\<open>up\<close>, \<^verbatim>\<open>left\<close> and \<^verbatim>\<open>down\<close> true, none of which is a flag that is set.
\<close>

theorem derived_state_broadcast_witness:
  "get_prop (Object [(''deltaT'', Number (Finite 16))]) ''deltaT'' = Inr (Number (Finite 16))
   \<and> to_number unrounded (Number (Finite 16)) = Inr (Finite 16)
   \<and> to_number unrounded (speed (fresh\<lparr>downLeft := True\<rparr>)) = Inr (Finite (3 / 10))
   \<and> (\<exists>this'. handle_logic unrounded (Object [(''deltaT'', Number (Finite 16))])
           (fresh\<lparr>downLeft := True\<rparr>) = Inr this'
        \<and> state this' =
            \<lparr> state_moving = True, state_left = True, state_right = False,
              state_up = True, state_down = True \<rparr>
        \<and> moving this' = True
        \<and> triggered (owner this') =
            [(''logical-state'',
              \<lparr> state_moving = True, state_left = True, state_right = False,
                state_up = True, state_down = True \<rparr>)])
   \<and> up (fresh\<lparr>downLeft := True\<rparr>) = False
   \<and> left (fresh\<lparr>downLeft := True\<rparr>) = False
   \<and> down (fresh\<lparr>downLeft := True\<rparr>) = False"
proof -
  have g: "get_prop (Object [(''deltaT'', Number (Finite 16))]) ''deltaT''
      = Inr (Number (Finite 16))"
    and n: "to_number unrounded (Number (Finite 16)) = Inr (Finite 16)"
    and s: "to_number unrounded (speed (fresh\<lparr>downLeft := True\<rparr>)) = Inr (Finite (3 / 10))"
    by (simp_all add: fresh_def)
  have f: "up (fresh\<lparr>downLeft := True\<rparr>) = False" "left (fresh\<lparr>downLeft := True\<rparr>) = False"
    "down (fresh\<lparr>downLeft := True\<rparr>) = False" "right (fresh\<lparr>downLeft := True\<rparr>) = False"
    "upLeft (fresh\<lparr>downLeft := True\<rparr>) = False" "upRight (fresh\<lparr>downLeft := True\<rparr>) = False"
    "downLeft (fresh\<lparr>downLeft := True\<rparr>) = True" "downRight (fresh\<lparr>downLeft := True\<rparr>) = False"
    and o: "state (fresh\<lparr>downLeft := True\<rparr>) =
        \<lparr> state_moving = False, state_left = False, state_right = False,
          state_up = False, state_down = False \<rparr>"
      "triggered (owner (fresh\<lparr>downLeft := True\<rparr>)) = []"
    by (simp_all add: fresh_def origin_def)
  have v: "velocity unrounded (fresh\<lparr>downLeft := True\<rparr>) =
      Inr (Number (Finite (- (3 / 10 / (1414 / 1000)))),
           Number (Finite (3 / 10 / (1414 / 1000))), True)"
    by (simp add: velocity_def fresh_def)
  from derived_state_broadcast [OF g n s]
  obtain this' where
    a: "handle_logic unrounded (Object [(''deltaT'', Number (Finite 16))])
           (fresh\<lparr>downLeft := True\<rparr>) = Inr this'"
    and b: "state_up (state this') = True" "state_left (state this') = True"
      "state_down (state this') = True" "state_right (state this') = False"
    and c: "state_moving (state this') = moving this'"
    and d: "triggered (owner this') = triggered (owner (fresh\<lparr>downLeft := True\<rparr>)) @
          (if state this' \<noteq> state (fresh\<lparr>downLeft := True\<rparr>)
           then [(''logical-state'', state this')] else [])"
    unfolding f by auto
  from handle_logic_moving [OF v, of "Object [(''deltaT'', Number (Finite 16))]"] a
  have m: "moving this' = True"
    by simp
  from b c m have st: "state this' =
            \<lparr> state_moving = True, state_left = True, state_right = False,
              state_up = True, state_down = True \<rparr>"
    by (cases "state this'") simp
  have "triggered (owner this') =
            [(''logical-state'',
              \<lparr> state_moving = True, state_left = True, state_right = False,
                state_up = True, state_down = True \<rparr>)]"
    unfolding d o st by simp
  with a st m g n s f(1-3) show ?thesis
    by blast
qed

text \<open>
  The claim as stated fails: its table takes the diagonals as active ones. With the flags
  \<^verbatim>\<open>down\<close> and \<^verbatim>\<open>left\<close> set the diagonal \<^verbatim>\<open>downLeft\<close> is active, so the table makes the
  derived \<^verbatim>\<open>up\<close> true, while the state stored by the tick has \<^verbatim>\<open>up\<close> false.
\<close>

theorem derived_state_broadcast_counterexample:
  "(\<exists>this'. handle_logic unrounded (Object [(''deltaT'', Number (Finite 16))])
        (fresh\<lparr>left := True, down := True\<rparr>) = Inr this'
      \<and> state_up (state this') = False)
   \<and> (up (fresh\<lparr>left := True, down := True\<rparr>)
        \<or> (upLeft (fresh\<lparr>left := True, down := True\<rparr>)
             \<or> (up (fresh\<lparr>left := True, down := True\<rparr>)
                  \<and> left (fresh\<lparr>left := True, down := True\<rparr>)))
        \<or> (downLeft (fresh\<lparr>left := True, down := True\<rparr>)
             \<or> (down (fresh\<lparr>left := True, down := True\<rparr>)
                  \<and> left (fresh\<lparr>left := True, down := True\<rparr>)))) = True"
  by (simp add: handle_logic_def velocity_def update_state_eq fresh_def)

subsection \<open>When the state is broadcast\<close>

text \<open>
  Claim C7. A tick in which nothing throws triggers \<^verbatim>\<open>logical-state\<close> exactly when one
  of the five fields \<^verbatim>\<open>moving\<close>, \<^verbatim>\<open>up\<close>, \<^verbatim>\<open>down\<close>, \<^verbatim>\<open>left\<close>, \<^verbatim>\<open>right\<close> of the derived
  state differs from the state stored by the tick before; otherwise it triggers nothing.
  A tick with \<^verbatim>\<open>deltaT\<close> = 16 on a component as constructed changes nothing at all: the
  position stays and nothing is triggered.
\<close>

theorem logical_state_iff_changed:
  assumes "get_prop resp ''deltaT'' = Inr deltaT"
    and "to_number rt deltaT = Inr dT"
    and "to_number rt (speed this) = Inr v"
  shows "(\<exists>this' vX vY m. velocity rt this = Inr (vX, vY, m)
      \<and> handle_logic rt resp this = Inr this'
      \<and> state this' =
          \<lparr> state_moving = m,
            state_left = (left this \<or> upLeft this \<or> downLeft this),
            state_right = (right this \<or> upRight this \<or> downRight this),
            state_up = (up this \<or> upLeft this \<or> downLeft this),
            state_down = (down this \<or> downLeft this \<or> downRight this) \<rparr>
      \<and> triggered (owner this') =
          (if state_moving (state this') \<noteq> state_moving (state this)
              \<or> state_up (state this') \<noteq> state_up (state this)
              \<or> state_down (state this') \<noteq> state_down (state this)
              \<or> state_left (state this') \<noteq> state_left (state this)
              \<or> state_right (state this') \<noteq> state_right (state this)
           then triggered (owner this) @ [(''logical-state'', state this')]
           else triggered (owner this)))
     \<and> (\<forall>own defn this0. component own defn = Inr this0 \<longrightarrow>
           dispatch rt ''handle-logic'' (Object [(''deltaT'', Number (Finite 16))]) this0
             = Inr this0)"
proof -
  have g: "get_prop (Object [(''deltaT'', Number (Finite 16))]) ''deltaT''
      = Inr (Number (Finite 16))"
    by simp
  have "dispatch rt ''handle-logic'' (Object [(''deltaT'', Number (Finite 16))]) this0
      = Inr this0"
    if b: "component own defn = Inr this0" for own defn this0
  proof -
    have v: "velocity rt this0 = Inr (Number (Finite 0), Number (Finite 0), False)"
      by (simp add: velocity_def component_fields [OF b])
    note r = handle_logic_returns [OF v g, of "Finite 0" "Finite 16" "Finite 0"]
    show ?thesis
      by (simp add: dispatch_handle_logic r component_fields [OF b])
  qed
  moreover have "\<exists>this' vX vY m. velocity rt this = Inr (vX, vY, m)
      \<and> handle_logic rt resp this = Inr this'
      \<and> state this' =
          \<lparr> state_moving = m,
            state_left = (left this \<or> upLeft this \<or> downLeft this),
            state_right = (right this \<or> upRight this \<or> downRight this),
            state_up = (up this \<or> upLeft this \<or> downLeft this),
            state_down = (down this \<or> downLeft this \<or> downRight this) \<rparr>
      \<and> triggered (owner this') =
          (if state_moving (state this') \<noteq> state_moving (state this)
              \<or> state_up (state this') \<noteq> state_up (state this)
              \<or> state_down (state this') \<noteq> state_down (state this)
              \<or> state_left (state this') \<noteq> state_left (state this)
              \<or> state_right (state this') \<noteq> state_right (state this)
           then triggered (owner this) @ [(''logical-state'', state this')]
           else triggered (owner this))"
  proof -
    from velocity_converts [OF assms(3)] obtain vX vY m nX nY
      where v: "velocity rt this = Inr (vX, vY, m)"
        and n: "to_number rt vX = Inr nX" "to_number rt vY = Inr nY"
      by blast
    show ?thesis
      by (auto simp add: v handle_logic_returns [OF v assms(1) n(1) assms(2) n(2)])
  qed
  ultimately show ?thesis by blast
qed

text \<open>
  The theorem at a component with \<^verbatim>\<open>up\<close> set: when its stored state is still at rest the
  tick triggers \<^verbatim>\<open>logical-state\<close>, when its stored state says moving up already the tick
  triggers nothing. A tick on the component as constructed triggers nothing and returns the
  component unchanged.
\<close>

theorem logical_state_iff_changed_witness:
  "get_prop (Object [(''deltaT'', Number (Finite 16))]) ''deltaT'' = Inr (Number (Finite 16))
   \<and> to_number unrounded (Number (Finite 16)) = Inr (Finite 16)
   \<and> to_number unrounded (speed (fresh\<lparr>up := True\<rparr>)) = Inr (Finite (3 / 10))
   \<and> (\<exists>this'. handle_logic unrounded (Object [(''deltaT'', Number (Finite 16))])
           (fresh\<lparr>up := True\<rparr>) = Inr this'
        \<and> triggered (owner this') =
            [(''logical-state'',
              \<lparr> state_moving = True, state_left = False, state_right = False,
                state_up = True, state_down = False \<rparr>)])
   \<and> to_number unrounded
        (speed (fresh\<lparr>up := True, moving := True,
           state := \<lparr> state_moving = True, state_left = False, state_right = False,
                      state_up = True, state_down = False \<rparr>\<rparr>)) = Inr (Finite (3 / 10))
   \<and> (\<exists>this'. handle_logic unrounded (Object [(''deltaT'', Number (Finite 16))])
           (fresh\<lparr>up := True, moving := True,
              state := \<lparr> state_moving = True, state_left = False, state_right = False,
                         state_up = True, state_down = False \<rparr>\<rparr>) = Inr this'
        \<and> triggered (owner this') = [])
   \<and> component origin (Object []) = Inr fresh
   \<and> dispatch unrounded ''handle-logic'' (Object [(''deltaT'', Number (Finite 16))]) fresh
       = Inr fresh"
proof -
  have g: "get_prop (Object [(''deltaT'', Number (Finite 16))]) ''deltaT''
      = Inr (Number (Finite 16))"
    and n: "to_number unrounded (Number (Finite 16)) = Inr (Finite 16)"
    and s: "to_number unrounded (speed (fresh\<lparr>up := True\<rparr>)) = Inr (Finite (3 / 10))"
    and s': "to_number unrounded
        (speed (fresh\<lparr>up := True, moving := True,
           state := \<lparr> state_moving = True, state_left = False, state_right = False,
                      state_up = True, state_down = False \<rparr>\<rparr>)) = Inr (Finite (3 / 10))"
    by (simp_all add: fresh_def)
  note t = logical_state_iff_changed [OF g n s]
  note t' = logical_state_iff_changed [OF g n s']
  have v: "velocity unrounded (fresh\<lparr>up := True\<rparr>)
      = Inr (Number (Finite 0), Number (Finite (- (3 / 10))), True)"
    and v': "velocity unrounded
        (fresh\<lparr>up := True, moving := True,
           state := \<lparr> state_moving = True, state_left = False, state_right = False,
                      state_up = True, state_down = False \<rparr>\<rparr>)
      = Inr (Number (Finite 0), Number (Finite (- (3 / 10))), True)"
    by (simp_all add: velocity_def fresh_def)
  from t obtain this' where
    a: "handle_logic unrounded (Object [(''deltaT'', Number (Finite 16))])
           (fresh\<lparr>up := True\<rparr>) = Inr this'"
    and b: "state this' =
          \<lparr> state_moving = True,
            state_left = (left (fresh\<lparr>up := True\<rparr>) \<or> upLeft (fresh\<lparr>up := True\<rparr>)
               \<or> downLeft (fresh\<lparr>up := True\<rparr>)),
            state_right = (right (fresh\<lparr>up := True\<rparr>) \<or> upRight (fresh\<lparr>up := True\<rparr>)
               \<or> downRight (fresh\<lparr>up := True\<rparr>)),
            state_up = (up (fresh\<lparr>up := True\<rparr>) \<or> upLeft (fresh\<lparr>up := True\<rparr>)
               \<or> downLeft (fresh\<lparr>up := True\<rparr>)),
            state_down = (down (fresh\<lparr>up := True\<rparr>) \<or> downLeft (fresh\<lparr>up := True\<rparr>)
               \<or> downRight (fresh\<lparr>up := True\<rparr>)) \<rparr>"
    and c: "triggered (owner this') =
          (if state_moving (state this') \<noteq> state_moving (state (fresh\<lparr>up := True\<rparr>))
              \<or> state_up (state this') \<noteq> state_up (state (fresh\<lparr>up := True\<rparr>))
              \<or> state_down (state this') \<noteq> state_down (state (fresh\<lparr>up := True\<rparr>))
              \<or> state_left (state this') \<noteq> state_left (state (fresh\<lparr>up := True\<rparr>))
              \<or> state_right (state this') \<noteq> state_right (state (fresh\<lparr>up := True\<rparr>))
           then triggered (owner (fresh\<lparr>up := True\<rparr>)) @ [(''logical-state'', state this')]
           else triggered (owner (fresh\<lparr>up := True\<rparr>)))"
    unfolding v by auto
  have st: "state this' =
      \<lparr> state_moving = True, state_left = False, state_right = False,
        state_up = True, state_down = False \<rparr>"
    unfolding b by (simp add: fresh_def)
  have "triggered (owner this') =
      [(''logical-state'',
        \<lparr> state_moving = True, state_left = False, state_right = False,
          state_up = True, state_down = False \<rparr>)]"
    unfolding c st by (simp add: fresh_def origin_def)
  with a have e: "\<exists>this'. handle_logic unrounded (Object [(''deltaT'', Number (Finite 16))])
           (fresh\<lparr>up := True\<rparr>) = Inr this'
        \<and> triggered (owner this') =
            [(''logical-state'',
              \<lparr> state_moving = True, state_left = False, state_right = False,
                state_up = True, state_down = False \<rparr>)]"
    by blast
  from t' obtain this'' where
    a': "handle_logic unrounded (Object [(''deltaT'', Number (Finite 16))])
           (fresh\<lparr>up := True, moving := True,
              state := \<lparr> state_moving = True, state_left = False, state_right = False,
                         state_up = True, state_down = False \<rparr>\<rparr>) = Inr this''"
    and b': "state this'' =
          \<lparr> state_moving = True,
            state_left = (left (fresh\<lparr>up := True\<rparr>) \<or> upLeft (fresh\<lparr>up := True\<rparr>)
               \<or> downLeft (fresh\<lparr>up := True\<rparr>)),
            state_right = (right (fresh\<lparr>up := True\<rparr>) \<or> upRight (fresh\<lparr>up := True\<rparr>)
               \<or> downRight (fresh\<lparr>up := True\<rparr>)),
            state_up = (up (fresh\<lparr>up := True\<rparr>) \<or> upLeft (fresh\<lparr>up := True\<rparr>)
               \<or> downLeft (fresh\<lparr>up := True\<rparr>)),
            state_down = (down (fresh\<lparr>up := True\<rparr>) \<or> downLeft (fresh\<lparr>up := True\<rparr>)
               \<or> downRight (fresh\<lparr>up := True\<rparr>)) \<rparr>"
    and c': "triggered (owner this'') =
          (if state_moving (state this'') \<noteq> True
              \<or> state_up (state this'') \<noteq> True
              \<or> state_down (state this'') \<noteq> False
              \<or> state_left (state this'') \<noteq> False
              \<or> state_right (state this'') \<noteq> False
           then triggered (owner fresh) @ [(''logical-state'', state this'')]
           else triggered (owner fresh))"
    unfolding v' by auto
  have st': "state this'' =
      \<lparr> state_moving = True, state_left = False, state_right = False,
        state_up = True, state_down = False \<rparr>"
    unfolding b' by (simp add: fresh_def)
  have "triggered (owner this'') = []"
    unfolding c' st' by (simp add: fresh_def origin_def)
  with a' have e': "\<exists>this'. handle_logic unrounded (Object [(''deltaT'', Number (Finite 16))])
           (fresh\<lparr>up := True, moving := True,
              state := \<lparr> state_moving = True, state_left = False, state_right = False,
                         state_up = True, state_down = False \<rparr>\<rparr>) = Inr this'
        \<and> triggered (owner this') = []"
    by blast
  from t fresh_constructed
  have "dispatch unrounded ''handle-logic'' (Object [(''deltaT'', Number (Finite 16))]) fresh
       = Inr fresh"
    by blast
  with g n s s' e e' fresh_constructed show ?thesis by blast
qed

subsection \<open>What a tick changes\<close>

text \<open>
  Claim C8. A tick in which nothing throws adds \<^verbatim>\<open>vX * deltaT\<close> to \<^verbatim>\<open>owner.x\<close> and
  \<^verbatim>\<open>vY * deltaT\<close> to \<^verbatim>\<open>owner.y\<close>, whatever the velocity is, the sum and the product being
  those of the runtime; of the component it writes \<^verbatim>\<open>moving\<close> and \<^verbatim>\<open>state\<close> only, of the
  owner the position (and it may trigger a message on it). Every tick, also one that
  throws, leaves the eight flags and \<^verbatim>\<open>speed\<close> as they were.
\<close>

theorem tick_frame:
  assumes "get_prop resp ''deltaT'' = Inr deltaT"
    and "to_number rt deltaT = Inr dT"
    and "to_number rt (speed this) = Inr v"
  shows "(\<exists>vX vY m nX nY this'. velocity rt this = Inr (vX, vY, m)
       \<and> to_number rt vX = Inr nX \<and> to_number rt vY = Inr nY
       \<and> handle_logic rt resp this = Inr this'
       \<and> owner_x (owner this') = num_add rt (owner_x (owner this)) (num_mul rt nX dT)
       \<and> owner_y (owner this') = num_add rt (owner_y (owner this)) (num_mul rt nY dT)
       \<and> this' = this
           \<lparr> moving := m, state := state this',
             owner := (owner this)
               \<lparr> owner_x := owner_x (owner this'), owner_y := owner_y (owner this'),
                 triggered := triggered (owner this') \<rparr> \<rparr>)
     \<and> (\<forall>direction. flag direction (after (handle_logic rt resp this)) = flag direction this)
     \<and> speed (after (handle_logic rt resp this)) = speed this"
proof -
  from velocity_converts [OF assms(3)] obtain vX vY m nX nY
    where v: "velocity rt this = Inr (vX, vY, m)"
      and n: "to_number rt vX = Inr nX" "to_number rt vY = Inr nY"
    by blast
  have "\<exists>this'. handle_logic rt resp this = Inr this'
       \<and> owner_x (owner this') = num_add rt (owner_x (owner this)) (num_mul rt nX dT)
       \<and> owner_y (owner this') = num_add rt (owner_y (owner this)) (num_mul rt nY dT)
       \<and> this' = this
           \<lparr> moving := m, state := state this',
             owner := (owner this)
               \<lparr> owner_x := owner_x (owner this'), owner_y := owner_y (owner this'),
                 triggered := triggered (owner this') \<rparr> \<rparr>"
    by (simp add: handle_logic_returns [OF v assms(1) n(1) assms(2) n(2)])
  with v n handle_logic_flags [of _ rt resp this] handle_logic_speed [of rt resp this]
  show ?thesis by blast
qed

text \<open>
  The theorem at a component moving right from (5, 100), and a tick of 10: three units to
  the right, to (8, 100).
\<close>

theorem tick_frame_witness:
  "get_prop (Object [(''deltaT'', Number (Finite 10))]) ''deltaT'' = Inr (Number (Finite 10))
   \<and> to_number unrounded (Number (Finite 10)) = Inr (Finite 10)
   \<and> to_number unrounded (speed (fresh\<lparr>owner := elsewhere, right := True\<rparr>))
       = Inr (Finite (3 / 10))
   \<and> owner_x (owner (fresh\<lparr>owner := elsewhere, right := True\<rparr>)) = Finite 5
   \<and> owner_y (owner (fresh\<lparr>owner := elsewhere, right := True\<rparr>)) = Finite 100
   \<and> (\<exists>this'. handle_logic unrounded (Object [(''deltaT'', Number (Finite 10))])
           (fresh\<lparr>owner := elsewhere, right := True\<rparr>) = Inr this'
        \<and> owner_x (owner this') = Finite 8
        \<and> owner_y (owner this') = Finite 100
        \<and> (\<forall>direction. flag direction this'
              = flag direction (fresh\<lparr>owner := elsewhere, right := True\<rparr>))
        \<and> speed this' = Number (Finite (3 / 10)))"
proof -
  have g: "get_prop (Object [(''deltaT'', Number (Finite 10))]) ''deltaT''
      = Inr (Number (Finite 10))"
    and n: "to_number unrounded (Number (Finite 10)) = Inr (Finite 10)"
    and s: "to_number unrounded (speed (fresh\<lparr>owner := elsewhere, right := True\<rparr>))
       = Inr (Finite (3 / 10))"
    and o: "owner_x (owner (fresh\<lparr>owner := elsewhere, right := True\<rparr>)) = Finite 5"
    "owner_y (owner (fresh\<lparr>owner := elsewhere, right := True\<rparr>)) = Finite 100"
    "speed (fresh\<lparr>owner := elsewhere, right := True\<rparr>) = Number (Finite (3 / 10))"
    by (simp_all add: fresh_def elsewhere_def)
  have v: "velocity unrounded (fresh\<lparr>owner := elsewhere, right := True\<rparr>)
      = Inr (Number (Finite (3 / 10)), Number (Finite 0), True)"
    by (simp add: velocity_def fresh_def)
  from tick_frame [OF g n s] obtain nX nY this' where
    c: "to_number unrounded (Number (Finite (3 / 10))) = Inr nX"
      "to_number unrounded (Number (Finite 0)) = Inr nY"
    and a: "handle_logic unrounded (Object [(''deltaT'', Number (Finite 10))])
           (fresh\<lparr>owner := elsewhere, right := True\<rparr>) = Inr this'"
    and x: "owner_x (owner this') = num_add unrounded (Finite 5) (num_mul unrounded nX (Finite 10))"
    and y: "owner_y (owner this') = num_add unrounded (Finite 100) (num_mul unrounded nY (Finite 10))"
    and f: "\<forall>direction. flag direction
          (after (handle_logic unrounded (Object [(''deltaT'', Number (Finite 10))])
             (fresh\<lparr>owner := elsewhere, right := True\<rparr>)))
        = flag direction (fresh\<lparr>owner := elsewhere, right := True\<rparr>)"
    and p: "speed (after (handle_logic unrounded (Object [(''deltaT'', Number (Finite 10))])
             (fresh\<lparr>owner := elsewhere, right := True\<rparr>)))
        = speed (fresh\<lparr>owner := elsewhere, right := True\<rparr>)"
    unfolding v o by auto
  from c have nn: "nX = Finite (3 / 10)" "nY = Finite 0"
    by simp_all
  have x': "owner_x (owner this') = Finite 8" and y': "owner_y (owner this') = Finite 100"
    unfolding x y nn by (simp_all add: unrounded_def)
  from f p have "(\<forall>direction. flag direction this'
              = flag direction (fresh\<lparr>owner := elsewhere, right := True\<rparr>))
        \<and> speed this' = Number (Finite (3 / 10))"
    unfolding a o by simp
  with a x' y' g n s o show ?thesis by blast
qed

subsection \<open>The messages the component triggers\<close>

text \<open>
  Claim C9. Whatever messages the component receives, directional ones, \<^verbatim>\<open>stop\<close>, ticks
  or any other, all it ever triggers on its owner is \<^verbatim>\<open>logical-state\<close>: never
  \<^verbatim>\<open>stopped\<close>, never \<^verbatim>\<open>moving\<close>.
\<close>

theorem only_logical_state_triggered:
  "\<exists>es. triggered (owner (run rt ms this)) = triggered (owner this) @ es
     \<and> (\<forall>e\<in>set es. fst e = ''logical-state'')"
proof (induction ms arbitrary: this)
  case Nil
  show ?case by simp
next
  case (Cons m ms)
  obtain messageId val where m: "m = (messageId, val)"
    by (cases m)
  from triggered_dispatch [of rt messageId val this]
  obtain es where es: "triggered (owner (after (dispatch rt messageId val this)))
       = triggered (owner this) @ es" "\<forall>e\<in>set es. fst e = ''logical-state''"
    by blast
  from Cons.IH [of "after (dispatch rt messageId val this)"]
  obtain es' where es': "triggered (owner (run rt ms
         (after (dispatch rt messageId val this))))
       = triggered (owner (after (dispatch rt messageId val this))) @ es'"
      "\<forall>e\<in>set es'. fst e = ''logical-state''"
    by blast
  have "triggered (owner (run rt (m # ms) this)) = triggered (owner this) @ (es @ es')"
    by (simp add: m es es')
  moreover have "\<forall>e\<in>set (es @ es'). fst e = ''logical-state''"
    using es es' by auto
  ultimately show ?case by blast
qed

text \<open>
  The theorem at a component that starts to move up, is ticked, is stopped and is ticked
  again: from rest to moving and back, with \<^verbatim>\<open>logical-state\<close> triggered twice and nothing
  else.
\<close>

theorem only_logical_state_triggered_witness:
  "\<exists>es. triggered (owner (run unrounded
            [(''go-up'', Undefined),
             (''handle-logic'', Object [(''deltaT'', Number (Finite 10))]),
             (''stop'', Undefined),
             (''handle-logic'', Object [(''deltaT'', Number (Finite 10))])] fresh))
         = triggered (owner fresh) @ es
     \<and> (\<forall>e\<in>set es. fst e = ''logical-state'')
     \<and> es =
         [(''logical-state'',
           \<lparr> state_moving = True, state_left = False, state_right = False,
             state_up = True, state_down = False \<rparr>),
          (''logical-state'',
           \<lparr> state_moving = False, state_left = False, state_right = False,
             state_up = False, state_down = False \<rparr>)]"
proof -
  have u: "(''go-up'', Up) \<in> set directions"
    by (simp add: directions_def)
  have r: "triggered (owner (run unrounded
            [(''go-up'', Undefined),
             (''handle-logic'', Object [(''deltaT'', Number (Finite 10))]),
             (''stop'', Undefined),
             (''handle-logic'', Object [(''deltaT'', Number (Finite 10))])] fresh))
      = [(''logical-state'',
           \<lparr> state_moving = True, state_left = False, state_right = False,
             state_up = True, state_down = False \<rparr>),
          (''logical-state'',
           \<lparr> state_moving = False, state_left = False, state_right = False,
             state_up = False, state_down = False \<rparr>)]"
    by (simp add: dispatch_directional [OF u] dispatch_handle_logic dispatch_stop
          processDirection_def stop_def handle_logic_def update_state_eq velocity_def
          fresh_def origin_def)
  have o: "triggered (owner fresh) = []"
    by (simp add: fresh_def origin_def)
  from only_logical_state_triggered [of unrounded
          "[(''go-up'', Undefined),
            (''handle-logic'', Object [(''deltaT'', Number (Finite 10))]),
            (''stop'', Undefined),
            (''handle-logic'', Object [(''deltaT'', Number (Finite 10))])]" fresh]
  show ?thesis
    unfolding r o by simp
qed

subsection \<open>The default speed\<close>

text \<open>
  Claim C10. The constructor sets \<^verbatim>\<open>speed\<close> to \<^verbatim>\<open>definition.speed || .3\<close>: when the
  \<^verbatim>\<open>speed\<close> of the definition is not truthy, which is when it is absent (so
  \<^verbatim>\<open>undefined\<close>), \<^verbatim>\<open>null\<close>, \<^verbatim>\<open>false\<close>, 0, NaN or the empty string, the speed of the
  component is 0.3. A speed of 0 cannot be configured.
\<close>

theorem default_speed:
  assumes "get_prop defn ''speed'' = Inr s"
  shows "(\<exists>this. component own defn = Inr this
            \<and> speed this = js_or s (Number (Finite (3 / 10))))
     \<and> (s \<in> {Undefined, Null, Boolean False, Number (Finite 0), Number NaN, String []}
          \<longrightarrow> (\<exists>this. component own defn = Inr this
                 \<and> speed this = Number (Finite (3 / 10))))
     \<and> (\<not> truthy s) =
         (s \<in> {Undefined, Null, Boolean False, Number (Finite 0), Number NaN, String []})"
  using assms falsy_values [of s]
  by (simp add: component_def js_or_def)

text \<open>The theorem at a definition that asks for the speed 0.\<close>

theorem default_speed_witness:
  "get_prop (Object [(''speed'', Number (Finite 0))]) ''speed'' = Inr (Number (Finite 0))
   \<and> Number (Finite 0)
       \<in> {Undefined, Null, Boolean False, Number (Finite 0), Number NaN, String []}
   \<and> (\<exists>this. component origin (Object [(''speed'', Number (Finite 0))]) = Inr this
         \<and> speed this = Number (Finite (3 / 10)))"
proof -
  have g: "get_prop (Object [(''speed'', Number (Finite 0))]) ''speed''
      = Inr (Number (Finite 0))"
    by simp
  have m: "Number (Finite 0)
       \<in> {Undefined, Null, Boolean False, Number (Finite 0), Number NaN, String []}"
    by simp
  from default_speed [OF g, of origin] m
  have "\<exists>this. component origin (Object [(''speed'', Number (Finite 0))]) = Inr this
         \<and> speed this = Number (Finite (3 / 10))"
    by blast
  with g m show ?thesis by blast
qed

end
